theory Spec2Isabelle
  imports Main
begin

section \<open>Data model\<close>

text \<open>
  The orchestrator of \<^verbatim>\<open>api/jellyfin/item.go\<close> works on the entities of package
  \<^verbatim>\<open>models\<close>, on the entity store \<^verbatim>\<open>a.cache\<close> and on the HTTP transport \<^verbatim>\<open>a.get\<close>.
  Go errors are identified with their messages: \<^verbatim>\<open>fmt.Errorf("get artist: %v", err)\<close> is the
  string \<open>''get artist: '' @ err\<close>, and a \<^verbatim>\<open>nil\<close> error is \<open>None\<close>. A Go function returning
  \<^verbatim>\<open>(value, error)\<close> returns both components here as well, since the source returns
  meaningful values next to a non-nil error.
\<close>

type_synonym Id = string
type_synonym error = string

text \<open>
  Modelled from the spec: the declarations of \<^verbatim>\<open>models.Artist\<close>, \<^verbatim>\<open>models.Album\<close>,
  \<^verbatim>\<open>models.Song\<close> and \<^verbatim>\<open>models.Playlist\<close> are missing; the records carry the fields the spec's
  data model lists and the orchestrator reads or writes. A slice whose nil-ness the code tests
  (\<^verbatim>\<open>Albums\<close>, \<^verbatim>\<open>Songs\<close>) is a \<open>list option\<close>, \<open>None\<close> being the nil slice. The counts are
  Go \<^verbatim>\<open>int\<close>s that are only compared and assigned from \<^verbatim>\<open>len\<close>, never calculated with.
\<close>

record Artist =
  artistId :: Id
  artistName :: string
  Albums :: "Id list option"
  AlbumCount :: int

record Album =
  albumId :: Id
  albumName :: string
  albumArtist :: Id
  Songs :: "Id list option"
  SongCount :: int

record Song =
  songId :: Id
  songName :: string
  songAlbum :: Id
  AlbumArtist :: Id
  Index :: int

record Playlist =
  playlistId :: Id
  playlistName :: string
  playlistSongCount :: int

text \<open>The interface \<^verbatim>\<open>models.Item\<close> holding a non-nil pointer to one of the four entities.\<close>

datatype Item = ItemArtist Artist | ItemAlbum Album | ItemSong Song | ItemPlaylist Playlist

fun GetId :: "Item \<Rightarrow> Id" where
  "GetId (ItemArtist x) = artistId x"
| "GetId (ItemAlbum x) = albumId x"
| "GetId (ItemSong x) = songId x"
| "GetId (ItemPlaylist x) = playlistId x"

text \<open>
  \<^verbatim>\<open>models.ItemType\<close> is a string type; the four constants the switch of \<^verbatim>\<open>GetItem\<close> names
  are constructors, any other string (also the empty one returned next to an error) is
  \<open>TypeOther\<close>.
\<close>

datatype ItemType = TypeArtist | TypeAlbum | TypeSong | TypePlaylist | TypeOther string

definition emptyArtist :: Artist where
  "emptyArtist = \<lparr>artistId = [], artistName = [], Albums = None, AlbumCount = 0\<rparr>"

definition emptyAlbum :: Album where
  "emptyAlbum = \<lparr>albumId = [], albumName = [], albumArtist = [], Songs = None, SongCount = 0\<rparr>"

text \<open>The completeness predicates, as the cache checks of \<^verbatim>\<open>GetArtist\<close> and \<^verbatim>\<open>GetAlbum\<close> test them.\<close>

definition ArtistComplete :: "Artist \<Rightarrow> bool" where
  "ArtistComplete ar =
     (case Albums ar of None \<Rightarrow> False | Some ids \<Rightarrow> int (length ids) = AlbumCount ar)"

definition AlbumComplete :: "Album \<Rightarrow> bool" where
  "AlbumComplete al =
     (case Songs al of None \<Rightarrow> False | Some ids \<Rightarrow> int (length ids) = SongCount al)"

text \<open>
  A Go \<^verbatim>\<open>int\<close> that is calculated with: 64 bits, two's complement, wrapping.
\<close>

definition go_int :: "int \<Rightarrow> int" where
  "go_int x = (x + 2 ^ 63) mod 2 ^ 64 - 2 ^ 63"

section \<open>The entity store\<close>

text \<open>
  Modelled from the spec: the type of \<^verbatim>\<open>a.cache\<close> and its methods \<^verbatim>\<open>Get\<close>, \<^verbatim>\<open>Put\<close>,
  \<^verbatim>\<open>PutBatch\<close> and \<^verbatim>\<open>Delete\<close> are missing. Section 4.1 of the spec: \<^verbatim>\<open>Get\<close> returns the
  last-written entity or not-found, without eviction; \<^verbatim>\<open>Put\<close> stores the item, and is a no-op
  when \<^verbatim>\<open>overwrite\<close> is false and an entry exists; \<^verbatim>\<open>Delete\<close> removes the entry and is
  idempotent; \<^verbatim>\<open>PutBatch\<close> stores several entities and fails with a store error if an
  individual write is invalid, without cleaning up what it has written. What makes a write
  invalid is left open by the spec, so it is the parameter \<open>check\<close> (\<open>None\<close>: the write is
  valid); the batch writes in order, each item under its own identifier, and stops at the
  first invalid one.
\<close>

type_synonym Cache = "Id \<rightharpoonup> Item"

definition cache_Get :: "Cache \<Rightarrow> Id \<Rightarrow> Item option \<times> bool" where
  "cache_Get c i = (c i, c i \<noteq> None)"

definition cache_Put :: "Cache \<Rightarrow> Id \<Rightarrow> Item \<Rightarrow> bool \<Rightarrow> Cache" where
  "cache_Put c i item overwrite = (if \<not> overwrite \<and> c i \<noteq> None then c else c(i \<mapsto> item))"

definition cache_Delete :: "Cache \<Rightarrow> Id \<Rightarrow> Cache" where
  "cache_Delete c i = c(i := None)"

fun cache_PutBatch :: "(Item \<Rightarrow> error option) \<Rightarrow> Cache \<Rightarrow> Item list \<Rightarrow> bool \<Rightarrow> Cache \<times> error option" where
  "cache_PutBatch check c [] overwrite = (c, None)"
| "cache_PutBatch check c (x # xs) overwrite =
     (case check x of
        Some e \<Rightarrow> (c, Some e)
      | None \<Rightarrow> cache_PutBatch check (cache_Put c (GetId x) x overwrite) xs overwrite)"

section \<open>The remote catalog and the decoders\<close>

text \<open>
  A request is one combination of path and query parameters that \<^verbatim>\<open>item.go\<close> passes to
  \<^verbatim>\<open>a.get\<close>; the helpers that build the parameter map are missing, so each combination is a
  constructor carrying what varies in it.
  \<^item> \<open>ReqItem id\<close>: \<^verbatim>\<open>/Users/<user>/Items/<id>\<close> with the default parameters
    (\<^verbatim>\<open>GetItem\<close>, \<^verbatim>\<open>GetArtist\<close>, \<^verbatim>\<open>GetAlbum\<close>);
  \<^item> \<open>ReqArtistAlbums id\<close>: \<^verbatim>\<open>/Users/<user>/Items\<close>, albums, recursive,
    \<^verbatim>\<open>AlbumArtistIds=<id>\<close>, \<^verbatim>\<open>Limit=100\<close>, by production year;
  \<^item> \<open>ReqAlbumSongs id\<close>: \<^verbatim>\<open>/Users/<user>/Items\<close>, recursive, \<^verbatim>\<open>ParentId=<id>\<close>,
    \<^verbatim>\<open>Limit=100\<close>, by sort name;
  \<^item> \<open>ReqPlaylistSongs id\<close>: \<^verbatim>\<open>/Users/<user>/Items\<close>, \<^verbatim>\<open>ParentId=<id>\<close>;
  \<^item> \<open>ReqSongs limit start\<close>: \<^verbatim>\<open>/Users/<user>/Items\<close>, songs, recursive, by name,
    \<^verbatim>\<open>Limit=<limit>\<close>, \<^verbatim>\<open>StartIndex=<start>\<close>;
  \<^item> \<open>ReqSongsById idList\<close>: \<^verbatim>\<open>/Users/<user>/Items\<close>, songs, recursive, \<^verbatim>\<open>Ids=<idList>\<close>.
\<close>

datatype request =
    ReqItem Id
  | ReqArtistAlbums Id
  | ReqAlbumSongs Id
  | ReqPlaylistSongs Id
  | ReqSongs int int
  | ReqSongsById string

text \<open>
  What \<^verbatim>\<open>encoding/json\<close> puts into a \<^verbatim>\<open>map[string]interface{}\<close>. \<^verbatim>\<open>getItemType\<close> only asks
  whether the value of \<^verbatim>\<open>Type\<close> is a string, so a number (a \<^verbatim>\<open>float64\<close> in Go) is kept as an
  integer here.
\<close>

datatype jvalue =
    JNull
  | JBool bool
  | JNumber int
  | JString string
  | JArray "jvalue list"
  | JObject "(string \<times> jvalue) list"

text \<open>
  The parts of the program and of its surroundings that are not in the source are parameters:
  the catalog server behind \<^verbatim>\<open>a.get\<close> (\<open>Inl\<close>: the transport error), \<^verbatim>\<open>ioutil.ReadAll\<close>, the JSON
  decoding of a body into a map and into each transfer object followed by its conversion
  (\<^verbatim>\<open>toArtist\<close>, \<^verbatim>\<open>toAlbum\<close>, \<^verbatim>\<open>toSong\<close>, \<^verbatim>\<open>toPlaylist\<close>; a listing comes with its total record
  count), the names \<^verbatim>\<open>mediaTypeArtist.String()\<close>, ... of the server's item types, and the
  validity check of the store's batch write. \<open>'b\<close> is the type of response bodies.
\<close>

record 'b Env =
  server :: "request \<Rightarrow> error + 'b"
  readAll :: "'b \<Rightarrow> error + 'b"
  decodeMap :: "'b \<Rightarrow> error + (string \<rightharpoonup> jvalue)"
  decodeArtist :: "'b \<Rightarrow> error + Artist"
  decodeAlbum :: "'b \<Rightarrow> error + Album"
  decodeSong :: "'b \<Rightarrow> error + Song"
  decodePlaylist :: "'b \<Rightarrow> error + Playlist"
  decodeAlbums :: "'b \<Rightarrow> error + Album list \<times> int"
  decodeSongs :: "'b \<Rightarrow> error + Song list \<times> int"
  mediaTypeArtist :: string
  mediaTypeAlbum :: string
  mediaTypeSong :: string
  mediaTypePlaylist :: string
  storeCheck :: "Item \<Rightarrow> error option"

text \<open>
  The mutable part of the receiver \<^verbatim>\<open>a *Jellyfin\<close>: the store, and the requests sent to the
  server so far, oldest first.
\<close>

record Jellyfin =
  cache :: Cache
  sent :: "request list"

definition get :: "'b Env \<Rightarrow> Jellyfin \<Rightarrow> request \<Rightarrow> Jellyfin \<times> (error + 'b)" where
  "get env a req = (a\<lparr>sent := sent a @ [req]\<rparr>, server env req)"

section \<open>The orchestrator\<close>

definition getItemType :: "'b Env \<Rightarrow> (string \<rightharpoonup> jvalue) \<Rightarrow> ItemType \<times> error option" where
  "getItemType env dto =
     (case dto ''Type'' of
        Some (JString text) \<Rightarrow>
          if text = mediaTypeArtist env then (TypeArtist, None)
          else if text = mediaTypeAlbum env then (TypeAlbum, None)
          else if text = mediaTypeSong env then (TypeSong, None)
          else (TypeOther [], Some (''unknown type: '' @ text))
      | _ \<Rightarrow> (TypeOther [], Some ''invalid type: ''))"

text \<open>The tail of \<^verbatim>\<open>GetItem\<close>: \<^verbatim>\<open>a.cache.Put(id, item, true); return item, nil\<close>.\<close>

definition storeItem :: "Jellyfin \<Rightarrow> Id \<Rightarrow> Item \<Rightarrow> Jellyfin \<times> Item option \<times> error option" where
  "storeItem a i item = (a\<lparr>cache := cache_Put (cache a) i item True\<rparr>, Some item, None)"

text \<open>The switch of \<^verbatim>\<open>GetItem\<close> on the item type, decoding the body \<open>b\<close> a second time.\<close>

definition decodeItem :: "'b Env \<Rightarrow> Jellyfin \<Rightarrow> Id \<Rightarrow> 'b \<Rightarrow> ItemType \<Rightarrow> Jellyfin \<times> Item option \<times> error option" where
  "decodeItem env a i b itemT =
     (case itemT of
        TypeSong \<Rightarrow>
          (case decodeSong env b of
             Inl err \<Rightarrow> (a, None, Some (''decode song: '' @ err))
           | Inr x \<Rightarrow> storeItem a i (ItemSong x))
      | TypeAlbum \<Rightarrow>
          (case decodeAlbum env b of
             Inl err \<Rightarrow> (a, None, Some (''decode album: '' @ err))
           | Inr x \<Rightarrow> storeItem a i (ItemAlbum x))
      | TypeArtist \<Rightarrow>
          (case decodeArtist env b of
             Inl err \<Rightarrow> (a, None, Some (''decode artist: '' @ err))
           | Inr x \<Rightarrow> storeItem a i (ItemArtist x))
      | TypePlaylist \<Rightarrow>
          (case decodePlaylist env b of
             Inl err \<Rightarrow> (a, None, Some (''decode playlist: '' @ err))
           | Inr x \<Rightarrow> storeItem a i (ItemPlaylist x))
      | TypeOther t \<Rightarrow> (a, None, Some (''unknown item type: '' @ t)))"

definition GetItem :: "'b Env \<Rightarrow> Jellyfin \<Rightarrow> Id \<Rightarrow> Jellyfin \<times> Item option \<times> error option" where
  "GetItem env a i =
     (let (item, found) = cache_Get (cache a) i in
      if found \<and> item \<noteq> None then (a, item, None)
      else
        (case get env a (ReqItem i) of
           (a1, Inl err) \<Rightarrow> (a1, None, Some (''get item by id: '' @ err))
         | (a1, Inr resp) \<Rightarrow>
             (case readAll env resp of
                Inl err \<Rightarrow> (a1, None, Some (''read http body: '' @ err))
              | Inr b \<Rightarrow>
                  (case decodeMap env b of
                     Inl err \<Rightarrow> (a1, None, Some (''parse json response: '' @ err))
                   | Inr dto \<Rightarrow>
                       (case getItemType env dto of
                          (itemT, Some err) \<Rightarrow> (a1, None, Some (''invalid item type: '' @ err))
                        | (itemT, None) \<Rightarrow> decodeItem env a1 i b itemT)))))"

text \<open>
  The loop of \<^verbatim>\<open>GetSongs\<close> over the decoded songs, \<open>i\<close> being the loop index. Go computes
  \<^verbatim>\<open>pageSize*pageSize + i + 1\<close> with wrapping at each operation, which is the wrapped exact
  value.
\<close>

fun indexSongs :: "int \<Rightarrow> nat \<Rightarrow> Song list \<Rightarrow> Song list" where
  "indexSongs pageSize i [] = []"
| "indexSongs pageSize i (v # vs) =
     v\<lparr>Index := go_int (pageSize * pageSize + int i + 1)\<rparr> # indexSongs pageSize (Suc i) vs"

definition GetSongs :: "'b Env \<Rightarrow> Jellyfin \<Rightarrow> int \<Rightarrow> int \<Rightarrow> Jellyfin \<times> Song list option \<times> int \<times> error option" where
  "GetSongs env a page pageSize =
     (case get env a (ReqSongs pageSize (go_int (page * pageSize))) of
        (a1, Inl err) \<Rightarrow> (a1, Some [], 0, Some err)
      | (a1, Inr resp) \<Rightarrow>
          (case decodeSongs env resp of
             Inl err \<Rightarrow> (a1, Some [], 0, Some (''decode json: '' @ err))
           | Inr (dtoSongs, totalSongs) \<Rightarrow>
               (a1, Some (indexSongs pageSize 0 dtoSongs), totalSongs, None)))"

text \<open>The loops of \<^verbatim>\<open>GetSongsById\<close>: the comma-separated id list, and the indices from 1.\<close>

fun joinIds :: "string \<Rightarrow> nat \<Rightarrow> Id list \<Rightarrow> string" where
  "joinIds idList i [] = idList"
| "joinIds idList i (v # vs) =
     joinIds ((if i > 0 then idList @ '','' else idList) @ v) (Suc i) vs"

fun numberSongs :: "nat \<Rightarrow> Song list \<Rightarrow> Song list" where
  "numberSongs i [] = []"
| "numberSongs i (v # vs) = v\<lparr>Index := go_int (int i + 1)\<rparr> # numberSongs (Suc i) vs"

definition GetSongsById :: "'b Env \<Rightarrow> Jellyfin \<Rightarrow> Id list \<Rightarrow> Jellyfin \<times> Song list option \<times> error option" where
  "GetSongsById env a ids =
     (if length ids = 0 then (a, Some [], Some ''ids cannot be empty'')
      else
        (case get env a (ReqSongsById (joinIds [] 0 ids)) of
           (a1, Inl err) \<Rightarrow> (a1, Some [], Some err)
         | (a1, Inr resp) \<Rightarrow>
             (case decodeSongs env resp of
                Inl err \<Rightarrow> (a1, Some [], Some (''decode json: '' @ err))
              | Inr (dtoSongs, totalSongs) \<Rightarrow> (a1, Some (numberSongs 0 dtoSongs), None))))"

definition parseAlbums :: "'b Env \<Rightarrow> 'b \<Rightarrow> Album list option \<times> int \<times> error option" where
  "parseAlbums env resp =
     (case decodeAlbums env resp of
        Inl err \<Rightarrow> (None, 0, Some (''decode json: '' @ err))
      | Inr (dtoAlbums, totalAlbums) \<Rightarrow> (Some dtoAlbums, totalAlbums, None))"

text \<open>
  \<^verbatim>\<open>GetArtistAlbums\<close> ends with \<^verbatim>\<open>albums, _, err := a.parseAlbums(resp); return albums, nil\<close>:
  the error of \<^verbatim>\<open>parseAlbums\<close> is assigned and not returned.
\<close>

definition GetArtistAlbums :: "'b Env \<Rightarrow> Jellyfin \<Rightarrow> Id \<Rightarrow> Jellyfin \<times> Album list option \<times> error option" where
  "GetArtistAlbums env a i =
     (case get env a (ReqArtistAlbums i) of
        (a1, Inl err) \<Rightarrow> (a1, None, Some (''get artist albums: '' @ err))
      | (a1, Inr resp) \<Rightarrow>
          (case parseAlbums env resp of (albums, numRecords, err) \<Rightarrow> (a1, albums, None)))"

text \<open>\<^verbatim>\<open>len\<close> and \<^verbatim>\<open>range\<close> treat the nil slice as the empty one.\<close>

definition elems :: "'x list option \<Rightarrow> 'x list" where
  "elems xs = (case xs of None \<Rightarrow> [] | Some ys \<Rightarrow> ys)"

text \<open>
  \<^verbatim>\<open>GetArtist\<close> from \<^verbatim>\<open>ar := models.Artist{}\<close> on: the part that runs when the cache check
  (below) has not returned. \<^verbatim>\<open>make([]models.Id, n)\<close> is never nil, so \<^verbatim>\<open>ar.Albums\<close> becomes \<open>Some ids\<close>.
  \<^verbatim>\<open>ar.AlbumCount\<close> keeps the value the server's artist payload decoded to.
\<close>

definition GetArtist_remote :: "'b Env \<Rightarrow> Jellyfin \<Rightarrow> Id \<Rightarrow> Jellyfin \<times> Artist \<times> error option" where
  "GetArtist_remote env a i =
     (case get env a (ReqItem i) of
        (a1, Inl err) \<Rightarrow> (a1, emptyArtist, Some (''get artist: '' @ err))
      | (a1, Inr resp) \<Rightarrow>
          (case decodeArtist env resp of
             Inl err \<Rightarrow> (a1, emptyArtist, Some (''parse artist: '' @ err))
           | Inr ar \<Rightarrow>
               (case GetArtistAlbums env a1 i of
                  (a2, albums, Some err) \<Rightarrow> (a2, ar, Some (''get artist albums: '' @ err))
                | (a2, albums, None) \<Rightarrow>
                    (let ids = map albumId (elems albums);
                         items = map ItemAlbum (elems albums)
                     in case cache_PutBatch (storeCheck env) (cache a2) items True of
                          (c, Some err) \<Rightarrow>
                            (a2\<lparr>cache := c\<rparr>, ar, Some (''store artist albums to cache: '' @ err))
                        | (c, None) \<Rightarrow>
                            (let ar' = ar\<lparr>Albums := Some ids\<rparr>
                             in (a2\<lparr>cache := cache_Put c i (ItemArtist ar') True\<rparr>, ar', None))))))"

text \<open>
  The cache check that opens \<^verbatim>\<open>GetArtist\<close>: the receiver after it, and the cached artist
  when the function returns it. A slot of another type is deleted (and a warning logged), a
  cached artist with a non-nil album list of the wrong length is deleted, one with a nil album
  list stays.
\<close>

definition GetArtist_cached :: "Jellyfin \<Rightarrow> Id \<Rightarrow> Jellyfin \<times> Artist option" where
  "GetArtist_cached a i =
     (let (item, found) = cache_Get (cache a) i in
      case (if found then item else None) of
        None \<Rightarrow> (a, None)
      | Some (ItemArtist artist) \<Rightarrow>
          (case Albums artist of
             None \<Rightarrow> (a, None)
           | Some albums \<Rightarrow>
               if int (length albums) = AlbumCount artist then (a, Some artist)
               else (a\<lparr>cache := cache_Delete (cache a) i\<rparr>, None))
      | Some other \<Rightarrow> (a\<lparr>cache := cache_Delete (cache a) i\<rparr>, None))"

definition GetArtist :: "'b Env \<Rightarrow> Jellyfin \<Rightarrow> Id \<Rightarrow> Jellyfin \<times> Artist \<times> error option" where
  "GetArtist env a i =
     (case GetArtist_cached a i of
        (a0, Some artist) \<Rightarrow> (a0, artist, None)
      | (a0, None) \<Rightarrow> GetArtist_remote env a0 i)"

text \<open>The loop of \<^verbatim>\<open>GetAlbumSongs\<close>: every decoded song is put into the store, overwriting.\<close>

fun putSongs :: "Cache \<Rightarrow> Song list \<Rightarrow> Cache" where
  "putSongs c [] = c"
| "putSongs c (song # vs) = putSongs (cache_Put c (songId song) (ItemSong song) True) vs"

definition GetAlbumSongs :: "'b Env \<Rightarrow> Jellyfin \<Rightarrow> Id \<Rightarrow> Jellyfin \<times> Song list option \<times> error option" where
  "GetAlbumSongs env a album =
     (case get env a (ReqAlbumSongs album) of
        (a1, Inl err) \<Rightarrow> (a1, None, Some (''get album Songs; '' @ err))
      | (a1, Inr resp) \<Rightarrow>
          (case decodeSongs env resp of
             Inl err \<Rightarrow> (a1, None, Some (''failed to parse Songs: '' @ err))
           | Inr (dtoSongs, totalSongs) \<Rightarrow>
               (a1\<lparr>cache := putSongs (cache a1) dtoSongs\<rparr>, Some dtoSongs, None)))"

text \<open>
  \<^verbatim>\<open>GetAlbum\<close> from \<^verbatim>\<open>al := models.Album{}\<close> on. The songs are the pointers
  \<^verbatim>\<open>GetAlbumSongs\<close> has just put into the store, which keeps the item it is given: the loop
  \<^verbatim>\<open>v.AlbumArtist = al.Artist\<close> changes the stored songs with them. Each slot that
  \<^verbatim>\<open>GetAlbumSongs\<close> filled holds the last listed song with its identifier, so the store after
  the loop is the store with the updated songs put again in order (\<open>a3\<close>); then comes the
  batch write.
\<close>

definition GetAlbum_remote :: "'b Env \<Rightarrow> Jellyfin \<Rightarrow> Id \<Rightarrow> Jellyfin \<times> Album \<times> error option" where
  "GetAlbum_remote env a i =
     (case get env a (ReqItem i) of
        (a1, Inl err) \<Rightarrow> (a1, emptyAlbum, Some (''get album: '' @ err))
      | (a1, Inr resp) \<Rightarrow>
          (case decodeAlbum env resp of
             Inl err \<Rightarrow> (a1, emptyAlbum, Some (''parse album: '' @ err))
           | Inr al \<Rightarrow>
               (case GetAlbumSongs env a1 i of
                  (a2, songs, Some err) \<Rightarrow> (a2, al, Some (''get albums songs: '' @ err))
                | (a2, songs, None) \<Rightarrow>
                    (let songs' = map (\<lambda>v. v\<lparr>AlbumArtist := albumArtist al\<rparr>) (elems songs);
                         a3 = a2\<lparr>cache := putSongs (cache a2) songs'\<rparr>;
                         ids = map songId songs';
                         items = map ItemSong songs'
                     in case cache_PutBatch (storeCheck env) (cache a3) items True of
                          (c, Some err) \<Rightarrow>
                            (a3\<lparr>cache := c\<rparr>, al, Some (''store artist albums to cache: '' @ err))
                        | (c, None) \<Rightarrow>
                            (let al' = al\<lparr>SongCount := int (length ids), Songs := Some ids\<rparr>
                             in (a3\<lparr>cache := cache_Put c i (ItemAlbum al') True\<rparr>, al', None))))))"

text \<open>The cache check that opens \<^verbatim>\<open>GetAlbum\<close>, as for the artist.\<close>

definition GetAlbum_cached :: "Jellyfin \<Rightarrow> Id \<Rightarrow> Jellyfin \<times> Album option" where
  "GetAlbum_cached a i =
     (let (item, found) = cache_Get (cache a) i in
      case (if found then item else None) of
        None \<Rightarrow> (a, None)
      | Some (ItemAlbum album) \<Rightarrow>
          (case Songs album of
             None \<Rightarrow> (a, None)
           | Some songs \<Rightarrow>
               if int (length songs) = SongCount album then (a, Some album)
               else (a\<lparr>cache := cache_Delete (cache a) i\<rparr>, None))
      | Some other \<Rightarrow> (a\<lparr>cache := cache_Delete (cache a) i\<rparr>, None))"

definition GetAlbum :: "'b Env \<Rightarrow> Jellyfin \<Rightarrow> Id \<Rightarrow> Jellyfin \<times> Album \<times> error option" where
  "GetAlbum env a i =
     (case GetAlbum_cached a i of
        (a0, Some album) \<Rightarrow> (a0, album, None)
      | (a0, None) \<Rightarrow> GetAlbum_remote env a0 i)"

definition GetPlaylistSongs :: "'b Env \<Rightarrow> Jellyfin \<Rightarrow> Id \<Rightarrow> Jellyfin \<times> Song list option \<times> error option" where
  "GetPlaylistSongs env a playlist =
     (case get env a (ReqPlaylistSongs playlist) of
        (a1, Inl err) \<Rightarrow> (a1, Some [], Some err)
      | (a1, Inr resp) \<Rightarrow>
          (case decodeSongs env resp of
             Inl err \<Rightarrow> (a1, Some [], Some (''decode json: '' @ err))
           | Inr (dtoSongs, totalSongs) \<Rightarrow> (a1, Some dtoSongs, None)))"

text \<open>
  The two hops of \<^verbatim>\<open>GetSongArtistAlbum\<close>. \<open>asAlbum\<close> is the first block: with a nil error, the type
  assertion \<^verbatim>\<open>item.(*models.Album)\<close> and the \<^verbatim>\<open>Put\<close> when it holds; \<open>asArtist\<close> is the same for the
  artist. A failed assertion leaves the nil pointer.
\<close>

definition asAlbum :: "Jellyfin \<times> Item option \<times> error option \<Rightarrow> Jellyfin \<times> Album option" where
  "asAlbum r =
     (case r of
        (a, Some (ItemAlbum al), None) \<Rightarrow>
          (a\<lparr>cache := cache_Put (cache a) (GetId (ItemAlbum al)) (ItemAlbum al) True\<rparr>, Some al)
      | (a, item, err) \<Rightarrow> (a, None))"

definition asArtist :: "Jellyfin \<times> Item option \<times> error option \<Rightarrow> Jellyfin \<times> Artist option" where
  "asArtist r =
     (case r of
        (a, Some (ItemArtist ar), None) \<Rightarrow>
          (a\<lparr>cache := cache_Put (cache a) (GetId (ItemArtist ar)) (ItemArtist ar) True\<rparr>, Some ar)
      | (a, item, err) \<Rightarrow> (a, None))"

definition GetSongArtistAlbum ::
    "'b Env \<Rightarrow> Jellyfin \<Rightarrow> Song \<Rightarrow> Jellyfin \<times> Album option \<times> Artist option \<times> error option" where
  "GetSongArtistAlbum env a song =
     (let r1 = GetItem env a (songAlbum song);
          err = snd (snd r1)
      in case asAlbum r1 of
           (a1, None) \<Rightarrow>
             (a1, None, None, Some (case err of None \<Rightarrow> ''album not found'' | Some e \<Rightarrow> e))
         | (a1, Some album) \<Rightarrow>
             (case asArtist (GetItem env a1 (albumArtist album)) of
                (a2, None) \<Rightarrow> (a2, None, None, Some ''not found'')
              | (a2, Some artist) \<Rightarrow> (a2, Some album, Some artist, None)))"

section \<open>A sample catalog\<close>

text \<open>
  A small server for the concrete runs below. A response body is what it decodes to; a body
  of another shape, or garbage, fails to decode. The item types are named as the Jellyfin
  server names them. The store refuses an item with an empty identifier.
  \<^item> artist \<open>ar1\<close> advertises three albums, and its album listing has two;
  \<^item> artist \<open>ar2\<close> advertises one album, and its listing has one;
  \<^item> artist \<open>ar3\<close> has an album without identifier in its listing;
  \<^item> the album listing of \<open>ar4\<close> is not JSON;
  \<^item> album \<open>al1\<close> of \<open>ar1\<close> has the songs \<open>s1\<close> and \<open>s2\<close>; \<open>pl1\<close> is a playlist;
  \<^item> the song listing of \<open>al2\<close> has three entries, the first and the last with the identifier
    \<open>s1\<close>.
\<close>

datatype body =
    BArtist Artist
  | BAlbum Album
  | BSong Song
  | BPlaylist Playlist
  | BAlbums "Album list"
  | BSongs "Song list"
  | BGarbage

definition artist1 :: Artist where
  "artist1 = \<lparr>artistId = ''ar1'', artistName = ''One'', Albums = None, AlbumCount = 3\<rparr>"

definition artist2 :: Artist where
  "artist2 = \<lparr>artistId = ''ar2'', artistName = ''Two'', Albums = None, AlbumCount = 1\<rparr>"

definition artist3 :: Artist where
  "artist3 = \<lparr>artistId = ''ar3'', artistName = ''Three'', Albums = None, AlbumCount = 1\<rparr>"

definition album1 :: Album where
  "album1 = \<lparr>albumId = ''al1'', albumName = ''First'', albumArtist = ''ar1'', Songs = None, SongCount = 2\<rparr>"

definition album2 :: Album where
  "album2 = \<lparr>albumId = ''al2'', albumName = ''Second'', albumArtist = ''ar1'', Songs = None, SongCount = 0\<rparr>"

definition album3 :: Album where
  "album3 = \<lparr>albumId = ''al3'', albumName = ''Third'', albumArtist = ''ar2'', Songs = None, SongCount = 0\<rparr>"

definition album4 :: Album where
  "album4 = \<lparr>albumId = [], albumName = ''Nameless'', albumArtist = ''ar3'', Songs = None, SongCount = 0\<rparr>"

definition song1 :: Song where
  "song1 = \<lparr>songId = ''s1'', songName = ''Intro'', songAlbum = ''al1'', AlbumArtist = [], Index = 0\<rparr>"

definition song2 :: Song where
  "song2 = \<lparr>songId = ''s2'', songName = ''Outro'', songAlbum = ''al1'', AlbumArtist = [], Index = 0\<rparr>"

definition song3 :: Song where
  "song3 = \<lparr>songId = ''s3'', songName = ''Listed'', songAlbum = ''pl1'', AlbumArtist = [], Index = 0\<rparr>"

definition song5 :: Song where
  "song5 = \<lparr>songId = ''s1'', songName = ''Intro again'', songAlbum = ''al2'', AlbumArtist = [], Index = 0\<rparr>"

definition playlist1 :: Playlist where
  "playlist1 = \<lparr>playlistId = ''pl1'', playlistName = ''Mix'', playlistSongCount = 2\<rparr>"

definition sampleServer :: "request \<Rightarrow> error + body" where
  "sampleServer req =
     (case req of
        ReqItem i \<Rightarrow>
          if i = ''ar1'' then Inr (BArtist artist1)
          else if i = ''ar2'' then Inr (BArtist artist2)
          else if i = ''ar3'' then Inr (BArtist artist3)
          else if i = ''al1'' then Inr (BAlbum album1)
          else if i = ''s1'' then Inr (BSong song1)
          else if i = ''pl1'' then Inr (BPlaylist playlist1)
          else Inl ''404 Not Found''
      | ReqArtistAlbums i \<Rightarrow>
          if i = ''ar1'' then Inr (BAlbums [album1, album2])
          else if i = ''ar2'' then Inr (BAlbums [album3])
          else if i = ''ar3'' then Inr (BAlbums [album4])
          else if i = ''ar4'' then Inr BGarbage
          else Inr (BAlbums [])
      | ReqAlbumSongs i \<Rightarrow>
          if i = ''al1'' then Inr (BSongs [song1, song2])
          else if i = ''al2'' then Inr (BSongs [song1, song2, song5])
          else Inr (BSongs [])
      | ReqPlaylistSongs i \<Rightarrow>
          if i = ''pl1'' then Inr (BSongs [song1, song2]) else Inr (BSongs [])
      | ReqSongs limit start \<Rightarrow>
          if limit = 2 \<and> start = 0 then Inr (BSongs [song1, song2]) else Inr (BSongs [])
      | ReqSongsById idList \<Rightarrow> Inr (BSongs []))"

definition sampleType :: "string \<Rightarrow> Id \<Rightarrow> error + (string \<rightharpoonup> jvalue)" where
  "sampleType t i = Inr [''Type'' \<mapsto> JString t, ''Id'' \<mapsto> JString i]"

definition sampleMap :: "body \<Rightarrow> error + (string \<rightharpoonup> jvalue)" where
  "sampleMap b =
     (case b of
        BArtist x \<Rightarrow> sampleType ''MusicArtist'' (artistId x)
      | BAlbum x \<Rightarrow> sampleType ''MusicAlbum'' (albumId x)
      | BSong x \<Rightarrow> sampleType ''Audio'' (songId x)
      | BPlaylist x \<Rightarrow> sampleType ''Playlist'' (playlistId x)
      | BAlbums xs \<Rightarrow> Inr [''TotalRecordCount'' \<mapsto> JNumber (int (length xs))]
      | BSongs xs \<Rightarrow> Inr [''TotalRecordCount'' \<mapsto> JNumber (int (length xs))]
      | BGarbage \<Rightarrow> Inl ''invalid character'')"

definition sampleEnv :: "body Env" where
  "sampleEnv =
     \<lparr>server = sampleServer,
      readAll = Inr,
      decodeMap = sampleMap,
      decodeArtist = (\<lambda>b. case b of BArtist x \<Rightarrow> Inr x | _ \<Rightarrow> Inl ''cannot unmarshal''),
      decodeAlbum = (\<lambda>b. case b of BAlbum x \<Rightarrow> Inr x | _ \<Rightarrow> Inl ''cannot unmarshal''),
      decodeSong = (\<lambda>b. case b of BSong x \<Rightarrow> Inr x | _ \<Rightarrow> Inl ''cannot unmarshal''),
      decodePlaylist = (\<lambda>b. case b of BPlaylist x \<Rightarrow> Inr x | _ \<Rightarrow> Inl ''cannot unmarshal''),
      decodeAlbums =
        (\<lambda>b. case b of BAlbums xs \<Rightarrow> Inr (xs, int (length xs)) | _ \<Rightarrow> Inl ''cannot unmarshal''),
      decodeSongs =
        (\<lambda>b. case b of BSongs xs \<Rightarrow> Inr (xs, int (length xs)) | _ \<Rightarrow> Inl ''cannot unmarshal''),
      mediaTypeArtist = ''MusicArtist'',
      mediaTypeAlbum = ''MusicAlbum'',
      mediaTypeSong = ''Audio'',
      mediaTypePlaylist = ''Playlist'',
      storeCheck = (\<lambda>item. if GetId item = [] then Some ''empty id'' else None)\<rparr>"

text \<open>A client that has just started: nothing stored, nothing sent.\<close>

definition newClient :: Jellyfin where
  "newClient = \<lparr>cache = Map.empty, sent = []\<rparr>"

text \<open>
  Clients that have been running: one whose slot \<open>ar2\<close> holds a song; one that has listed the
  playlists, so that its store holds \<open>pl1\<close>; one whose store holds an album of an artist the
  server does not know. \<open>song3\<close> names the playlist as its album, \<open>song4\<close> the orphaned album.
\<close>

definition staleClient :: Jellyfin where
  "staleClient = \<lparr>cache = [''ar2'' \<mapsto> ItemSong song1], sent = []\<rparr>"

definition browsedClient :: Jellyfin where
  "browsedClient = \<lparr>cache = [''pl1'' \<mapsto> ItemPlaylist playlist1], sent = []\<rparr>"

definition album5 :: Album where
  "album5 = \<lparr>albumId = ''al5'', albumName = ''Orphan'', albumArtist = ''ar9'', Songs = None, SongCount = 0\<rparr>"

definition song4 :: Song where
  "song4 = \<lparr>songId = ''s4'', songName = ''Lost'', songAlbum = ''al5'', AlbumArtist = [], Index = 0\<rparr>"

definition orphanClient :: Jellyfin where
  "orphanClient = \<lparr>cache = [''al5'' \<mapsto> ItemAlbum album5], sent = []\<rparr>"

lemmas sample_defs =
  sampleEnv_def sampleServer_def sampleMap_def sampleType_def newClient_def
  artist1_def artist2_def artist3_def album1_def album2_def album3_def album4_def album5_def
  song1_def song2_def song3_def song4_def song5_def playlist1_def

section \<open>The cache checks\<close>

text \<open>
  The check returns an entity exactly when the slot holds a complete one of the right type;
  when it does not return, the slot is left empty or with an entity whose child list is nil.
\<close>

lemma GetArtist_cached_hit:
  "GetArtist_cached a i = (a0, Some ar) \<Longrightarrow>
     a0 = a \<and> cache a i = Some (ItemArtist ar) \<and> ArtistComplete ar"
  by (auto simp: GetArtist_cached_def cache_Get_def ArtistComplete_def
           split: if_splits option.splits Item.splits)

lemma GetArtist_cached_complete:
  "cache a i = Some (ItemArtist ar) \<Longrightarrow> ArtistComplete ar \<Longrightarrow> GetArtist_cached a i = (a, Some ar)"
  by (auto simp: GetArtist_cached_def cache_Get_def ArtistComplete_def split: option.splits)

lemma GetAlbum_cached_hit:
  "GetAlbum_cached a i = (a0, Some al) \<Longrightarrow>
     a0 = a \<and> cache a i = Some (ItemAlbum al) \<and> AlbumComplete al"
  by (auto simp: GetAlbum_cached_def cache_Get_def AlbumComplete_def
           split: if_splits option.splits Item.splits)

lemma GetAlbum_cached_complete:
  "cache a i = Some (ItemAlbum al) \<Longrightarrow> AlbumComplete al \<Longrightarrow> GetAlbum_cached a i = (a, Some al)"
  by (auto simp: GetAlbum_cached_def cache_Get_def AlbumComplete_def split: option.splits)

lemma GetArtist_cached_miss:
  "GetArtist_cached a i = (a0, None) \<Longrightarrow>
     sent a0 = sent a \<and> (\<forall>x. cache a0 i = Some (ItemArtist x) \<longrightarrow> Albums x = None)"
  by (auto simp: GetArtist_cached_def cache_Get_def cache_Delete_def
           split: if_splits option.splits Item.splits)

lemma GetArtist_cached_no_albums:
  "\<forall>x. cache a i = Some (ItemArtist x) \<longrightarrow> Albums x = None \<Longrightarrow>
     \<exists>a0. GetArtist_cached a i = (a0, None) \<and> sent a0 = sent a"
  by (auto simp: GetArtist_cached_def cache_Get_def split: option.splits Item.splits)

section \<open>What a call sends and stores\<close>

lemma get_sent: "get env a req = (a1, r) \<Longrightarrow> cache a1 = cache a \<and> sent a1 = sent a @ [req] \<and> r = server env req"
  by (auto simp: get_def)

lemma GetArtistAlbums_state:
  "GetArtistAlbums env a i = (a2, albums, e) \<Longrightarrow> cache a2 = cache a \<and> sent a2 = sent a @ [ReqArtistAlbums i]"
  by (auto simp: GetArtistAlbums_def get_def split: sum.splits prod.splits)

lemma GetArtist_remote_sent:
  "\<exists>rest. sent (fst (GetArtist_remote env a i)) = sent a @ ReqItem i # rest"
  by (auto simp: GetArtist_remote_def GetArtistAlbums_def get_def Let_def split: sum.splits prod.splits option.splits)

lemma GetArtist_remote_stored:
  "GetArtist_remote env a i = (a', ar, None) \<Longrightarrow>
     cache a' i = Some (ItemArtist ar) \<and> sent a' = sent a @ [ReqItem i, ReqArtistAlbums i]
     \<and> Albums ar \<noteq> None
     \<and> (\<exists>resp fresh. server env (ReqItem i) = Inr resp \<and> decodeArtist env resp = Inr fresh
           \<and> ar = fresh\<lparr>Albums := Albums ar\<rparr>)"
  by (auto simp: GetArtist_remote_def GetArtistAlbums_def get_def Let_def cache_Put_def
      split: sum.splits prod.splits option.splits)

lemma GetArtist_remote_errors:
  "GetArtist_remote env a i = (a', ar, Some e) \<Longrightarrow>
     (\<exists>t. e = ''get artist: '' @ t) \<or> (\<exists>t. e = ''parse artist: '' @ t)
     \<or> (\<exists>t. e = ''get artist albums: '' @ t) \<or> (\<exists>t. e = ''store artist albums to cache: '' @ t)"
  unfolding GetArtist_remote_def Let_def
  by (fastforce split: sum.splits prod.splits option.splits)

text \<open>
  A batch of albums never puts an artist into a slot: a slot without an artist carrying an
  album list has none after the batch, whether the batch fails or not.
\<close>

lemma PutBatch_albums_slot:
  "\<forall>x. c i = Some (ItemArtist x) \<longrightarrow> Albums x = None \<Longrightarrow>
   cache_PutBatch check c (map ItemAlbum xs) ow = (c', r) \<Longrightarrow>
   \<forall>x. c' i = Some (ItemArtist x) \<longrightarrow> Albums x = None"
proof (induction xs arbitrary: c)
  case Nil
  then show ?case by simp
next
  case (Cons y ys)
  show ?case
  proof (cases "check (ItemAlbum y)")
    case None
    let ?c1 = "cache_Put c (GetId (ItemAlbum y)) (ItemAlbum y) ow"
    have keep: "\<forall>x. ?c1 i = Some (ItemArtist x) \<longrightarrow> Albums x = None"
      using Cons.prems(1) by (simp add: cache_Put_def)
    from Cons.prems(2) None
    have "cache_PutBatch check ?c1 (map ItemAlbum ys) ow = (c', r)" by simp
    with keep show ?thesis by (rule Cons.IH)
  next
    case (Some e)
    with Cons.prems show ?thesis by simp
  qed
qed

section \<open>Artists\<close>

text \<open>
  When the artist returned is complete, the second call is served by the store, as for albums.
\<close>

lemma GetArtist_complete_cached:
  assumes "GetArtist env a i = (a1, ar, None)" and "ArtistComplete ar"
  shows "GetArtist env a1 i = (a1, ar, None)"
proof -
  have "cache a1 i = Some (ItemArtist ar)"
  proof (cases "GetArtist_cached a i")
    case (Pair a0 hit)
    show ?thesis
    proof (cases hit)
      case None
      with Pair assms(1) have "GetArtist_remote env a0 i = (a1, ar, None)"
        by (simp add: GetArtist_def)
      then show ?thesis
        by (auto simp: GetArtist_remote_def Let_def cache_Put_def split: sum.splits prod.splits option.splits)
    next
      case (Some ar0)
      with Pair assms(1) have "a0 = a1" "ar0 = ar" by (simp_all add: GetArtist_def)
      with Pair Some GetArtist_cached_hit [of a i a0 ar0] show ?thesis by simp
    qed
  qed
  with assms(2) have "GetArtist_cached a1 i = (a1, Some ar)"
    by (simp add: GetArtist_cached_complete)
  then show ?thesis by (simp add: GetArtist_def)
qed

text \<open>
  C1. The claim: after a successful \<^verbatim>\<open>GetArtist(id)\<close> the artist returned is complete (its album
  list is non-nil and as long as \<^verbatim>\<open>AlbumCount\<close>), and a second \<^verbatim>\<open>GetArtist(id)\<close> sends nothing.
  \<^verbatim>\<open>GetArtist\<close> attaches the ids of the albums listed and leaves \<^verbatim>\<open>AlbumCount\<close> as the server's
  artist payload has it, where \<^verbatim>\<open>GetAlbum\<close> sets \<^verbatim>\<open>SongCount\<close> to the number of songs listed.
  Artist \<open>ar1\<close> of the sample catalog advertises three albums and its listing has two: the
  first call succeeds with two album ids and the count 3, which is not complete, and the
  second call deletes the slot and sends both requests again.
\<close>

theorem GetArtist_count_drift:
  "snd (GetArtist sampleEnv newClient ''ar1'') = (artist1\<lparr>Albums := Some [''al1'', ''al2'']\<rparr>, None)
   \<and> AlbumCount (artist1\<lparr>Albums := Some [''al1'', ''al2'']\<rparr>) = 3
   \<and> \<not> ArtistComplete (artist1\<lparr>Albums := Some [''al1'', ''al2'']\<rparr>)
   \<and> sent (fst (GetArtist sampleEnv newClient ''ar1'')) = [ReqItem ''ar1'', ReqArtistAlbums ''ar1'']
   \<and> snd (GetArtist sampleEnv (fst (GetArtist sampleEnv newClient ''ar1'')) ''ar1'')
       = (artist1\<lparr>Albums := Some [''al1'', ''al2'']\<rparr>, None)
   \<and> sent (fst (GetArtist sampleEnv (fst (GetArtist sampleEnv newClient ''ar1'')) ''ar1''))
       = [ReqItem ''ar1'', ReqArtistAlbums ''ar1'', ReqItem ''ar1'', ReqArtistAlbums ''ar1'']"
proof -
  have run: "GetArtist sampleEnv newClient ''ar1'' =
     (\<lparr>cache = [''al1'' \<mapsto> ItemAlbum album1, ''al2'' \<mapsto> ItemAlbum album2,
                 ''ar1'' \<mapsto> ItemArtist (artist1\<lparr>Albums := Some [''al1'', ''al2'']\<rparr>)],
       sent = [ReqItem ''ar1'', ReqArtistAlbums ''ar1'']\<rparr>,
      artist1\<lparr>Albums := Some [''al1'', ''al2'']\<rparr>, None)"
    by (simp add: GetArtist_def GetArtist_cached_def GetArtist_remote_def GetArtistAlbums_def
      parseAlbums_def cache_Get_def cache_Put_def get_def elems_def Let_def sample_defs)
  have again: "GetArtist sampleEnv
     \<lparr>cache = [''al1'' \<mapsto> ItemAlbum album1, ''al2'' \<mapsto> ItemAlbum album2,
                 ''ar1'' \<mapsto> ItemArtist (artist1\<lparr>Albums := Some [''al1'', ''al2'']\<rparr>)],
       sent = [ReqItem ''ar1'', ReqArtistAlbums ''ar1'']\<rparr> ''ar1'' =
     (\<lparr>cache = [''al1'' \<mapsto> ItemAlbum album1, ''al2'' \<mapsto> ItemAlbum album2,
                 ''ar1'' \<mapsto> ItemArtist (artist1\<lparr>Albums := Some [''al1'', ''al2'']\<rparr>)],
       sent = [ReqItem ''ar1'', ReqArtistAlbums ''ar1'', ReqItem ''ar1'', ReqArtistAlbums ''ar1'']\<rparr>,
      artist1\<lparr>Albums := Some [''al1'', ''al2'']\<rparr>, None)"
    by (simp add: GetArtist_def GetArtist_cached_def GetArtist_remote_def GetArtistAlbums_def
      parseAlbums_def cache_Get_def cache_Put_def cache_Delete_def get_def elems_def Let_def sample_defs)
  have drift: "\<not> ArtistComplete (artist1\<lparr>Albums := Some [''al1'', ''al2'']\<rparr>)"
    by (simp add: ArtistComplete_def artist1_def)
  have cnt: "AlbumCount (artist1\<lparr>Albums := Some [''al1'', ''al2'']\<rparr>) = 3"
    by (simp add: artist1_def)
  from run again drift cnt show ?thesis by simp
qed

text \<open>
  C3. When the slot of \<open>i\<close> holds an item that is not an artist, the cache check of
  \<^verbatim>\<open>GetArtist(i)\<close> deletes the slot and does not return, and the call goes on as the remote fetch
  from the store without the slot: it sends the request for the artist; when it returns
  without error, the slot holds the artist returned, which is the server's fresh artist with
  its album list attached, and exactly the two requests of a miss have been sent; an error it
  returns is one of the fetch (transport, decoding, store), never one about the type found.
\<close>

theorem GetArtist_type_mismatch_self_heals:
  assumes "cache_Get (cache a) i = (Some item, True)" and "\<forall>x. item \<noteq> ItemArtist x"
  shows "GetArtist_cached a i = (a\<lparr>cache := cache_Delete (cache a) i\<rparr>, None)
       \<and> GetArtist env a i = GetArtist_remote env (a\<lparr>cache := cache_Delete (cache a) i\<rparr>) i
       \<and> (\<exists>rest. sent (fst (GetArtist env a i)) = sent a @ ReqItem i # rest)
       \<and> (\<forall>a' ar. GetArtist env a i = (a', ar, None) \<longrightarrow>
             cache_Get (cache a') i = (Some (ItemArtist ar), True)
           \<and> sent a' = sent a @ [ReqItem i, ReqArtistAlbums i]
           \<and> (\<exists>resp fresh. server env (ReqItem i) = Inr resp \<and> decodeArtist env resp = Inr fresh
                 \<and> ar = fresh\<lparr>Albums := Albums ar\<rparr>))
       \<and> (\<forall>a' ar e. GetArtist env a i = (a', ar, Some e) \<longrightarrow>
             (\<exists>t. e = ''get artist: '' @ t) \<or> (\<exists>t. e = ''parse artist: '' @ t)
           \<or> (\<exists>t. e = ''get artist albums: '' @ t)
           \<or> (\<exists>t. e = ''store artist albums to cache: '' @ t))"
proof -
  let ?a0 = "a\<lparr>cache := cache_Delete (cache a) i\<rparr>"
  from assms have chk: "GetArtist_cached a i = (?a0, None)"
    by (cases item) (auto simp: GetArtist_cached_def cache_Get_def)
  then have eq: "GetArtist env a i = GetArtist_remote env ?a0 i"
    by (simp add: GetArtist_def)
  have log: "\<exists>rest. sent (fst (GetArtist env a i)) = sent a @ ReqItem i # rest"
    using GetArtist_remote_sent [of env ?a0 i] eq by simp
  have ok: "\<forall>a' ar. GetArtist env a i = (a', ar, None) \<longrightarrow>
             cache_Get (cache a') i = (Some (ItemArtist ar), True)
           \<and> sent a' = sent a @ [ReqItem i, ReqArtistAlbums i]
           \<and> (\<exists>resp fresh. server env (ReqItem i) = Inr resp \<and> decodeArtist env resp = Inr fresh
                 \<and> ar = fresh\<lparr>Albums := Albums ar\<rparr>)"
    using GetArtist_remote_stored [of env ?a0 i] eq by (auto simp: cache_Get_def)
  have err: "\<forall>a' ar e. GetArtist env a i = (a', ar, Some e) \<longrightarrow>
             (\<exists>t. e = ''get artist: '' @ t) \<or> (\<exists>t. e = ''parse artist: '' @ t)
           \<or> (\<exists>t. e = ''get artist albums: '' @ t)
           \<or> (\<exists>t. e = ''store artist albums to cache: '' @ t)"
    using GetArtist_remote_errors [of env ?a0 i] eq by metis
  from chk eq log ok err show ?thesis by blast
qed

text \<open>
  On the sample catalog: the slot \<open>ar2\<close> holding a song, \<^verbatim>\<open>GetArtist("ar2")\<close> fetches the artist
  and its album, and the slot holds the artist afterwards.
\<close>

lemma staleClient_run:
  "GetArtist sampleEnv staleClient ''ar2'' =
     (\<lparr>cache = [''al3'' \<mapsto> ItemAlbum album3, ''ar2'' \<mapsto> ItemArtist (artist2\<lparr>Albums := Some [''al3'']\<rparr>)],
       sent = [ReqItem ''ar2'', ReqArtistAlbums ''ar2'']\<rparr>,
      artist2\<lparr>Albums := Some [''al3'']\<rparr>, None)"
  by (simp add: GetArtist_def GetArtist_cached_def GetArtist_remote_def GetArtistAlbums_def
      parseAlbums_def cache_Get_def cache_Put_def cache_Delete_def get_def elems_def Let_def
      sample_defs staleClient_def)

theorem GetArtist_type_mismatch_self_heals_witness:
  "cache_Get (cache staleClient) ''ar2'' = (Some (ItemSong song1), True)
   \<and> GetArtist sampleEnv staleClient ''ar2'' =
       (\<lparr>cache = [''al3'' \<mapsto> ItemAlbum album3, ''ar2'' \<mapsto> ItemArtist (artist2\<lparr>Albums := Some [''al3'']\<rparr>)],
         sent = [ReqItem ''ar2'', ReqArtistAlbums ''ar2'']\<rparr>,
        artist2\<lparr>Albums := Some [''al3'']\<rparr>, None)
   \<and> cache_Get (cache (fst (GetArtist sampleEnv staleClient ''ar2''))) ''ar2''
       = (Some (ItemArtist (artist2\<lparr>Albums := Some [''al3'']\<rparr>)), True)"
proof -
  have h1: "cache_Get (cache staleClient) ''ar2'' = (Some (ItemSong song1), True)"
    by (simp add: cache_Get_def staleClient_def)
  have h2: "\<forall>x. ItemSong song1 \<noteq> ItemArtist x" by simp
  from GetArtist_type_mismatch_self_heals [OF h1 h2, of sampleEnv]
  have "\<forall>a' ar. GetArtist sampleEnv staleClient ''ar2'' = (a', ar, None) \<longrightarrow>
          cache_Get (cache a') ''ar2'' = (Some (ItemArtist ar), True)"
    by blast
  with staleClient_run
  have "cache_Get (cache (fst (GetArtist sampleEnv staleClient ''ar2''))) ''ar2''
       = (Some (ItemArtist (artist2\<lparr>Albums := Some [''al3'']\<rparr>)), True)"
    by simp
  with h1 staleClient_run show ?thesis by blast
qed

text \<open>
  C4. When \<^verbatim>\<open>GetArtist(i)\<close> gets past its cache check, receives and decodes the artist, lists
  the albums, and the batch write of the albums fails with \<open>e\<close>, it returns the error
  \<open>store artist albums to cache: e\<close> (non-nil) and the store as the failed batch left it: the
  final \<^verbatim>\<open>Put\<close> is not reached, the slot of \<open>i\<close> holds no artist with an album list, in
  particular not the assembled one, and the next \<^verbatim>\<open>GetArtist(i)\<close> sends the request for the
  artist again.
\<close>

theorem GetArtist_batch_failure_not_cached:
  assumes chk: "GetArtist_cached a i = (a0, None)"
      and req: "get env a0 (ReqItem i) = (a1, Inr resp)"
      and dec: "decodeArtist env resp = Inr ar"
      and lst: "GetArtistAlbums env a1 i = (a2, albums, None)"
      and bat: "cache_PutBatch (storeCheck env) (cache a2) (map ItemAlbum (elems albums)) True = (c, Some e)"
  shows "GetArtist env a i = (a2\<lparr>cache := c\<rparr>, ar, Some (''store artist albums to cache: '' @ e))
       \<and> (\<forall>x. c i = Some (ItemArtist x) \<longrightarrow> Albums x = None)
       \<and> c i \<noteq> Some (ItemArtist (ar\<lparr>Albums := Some (map albumId (elems albums))\<rparr>))
       \<and> (\<exists>rest. sent (fst (GetArtist env (a2\<lparr>cache := c\<rparr>) i)) = sent a2 @ ReqItem i # rest)"
proof -
  have run: "GetArtist env a i = (a2\<lparr>cache := c\<rparr>, ar, Some (''store artist albums to cache: '' @ e))"
    using chk req dec lst bat by (simp add: GetArtist_def GetArtist_remote_def Let_def)
  have "cache a2 = cache a0"
    using get_sent [OF req] GetArtistAlbums_state [OF lst] by simp
  with GetArtist_cached_miss [OF chk]
  have "\<forall>x. cache a2 i = Some (ItemArtist x) \<longrightarrow> Albums x = None" by simp
  from PutBatch_albums_slot [OF this bat]
  have slot: "\<forall>x. c i = Some (ItemArtist x) \<longrightarrow> Albums x = None" .
  then have fresh: "c i \<noteq> Some (ItemArtist (ar\<lparr>Albums := Some (map albumId (elems albums))\<rparr>))"
    by auto
  from slot have "\<forall>x. cache (a2\<lparr>cache := c\<rparr>) i = Some (ItemArtist x) \<longrightarrow> Albums x = None"
    by simp
  from GetArtist_cached_no_albums [OF this]
  obtain a3 where a3: "GetArtist_cached (a2\<lparr>cache := c\<rparr>) i = (a3, None)" "sent a3 = sent a2"
    by auto
  then have "GetArtist env (a2\<lparr>cache := c\<rparr>) i = GetArtist_remote env a3 i"
    by (simp add: GetArtist_def)
  with GetArtist_remote_sent [of env a3 i] a3(2)
  have again: "\<exists>rest. sent (fst (GetArtist env (a2\<lparr>cache := c\<rparr>) i)) = sent a2 @ ReqItem i # rest"
    by simp
  from run slot fresh again show ?thesis by blast
qed

text \<open>
  On the sample catalog: the listing of \<open>ar3\<close> has an album the store refuses; the call fails,
  the slot \<open>ar3\<close> stays empty and the next call fetches again.
\<close>

theorem GetArtist_batch_failure_not_cached_witness:
  "GetArtist sampleEnv newClient ''ar3'' =
     (newClient\<lparr>sent := [ReqItem ''ar3'', ReqArtistAlbums ''ar3'']\<rparr>, artist3,
      Some ''store artist albums to cache: empty id'')
   \<and> cache (fst (GetArtist sampleEnv newClient ''ar3'')) ''ar3'' = None
   \<and> (\<exists>rest. sent (fst (GetArtist sampleEnv (fst (GetArtist sampleEnv newClient ''ar3'')) ''ar3''))
          = [ReqItem ''ar3'', ReqArtistAlbums ''ar3''] @ ReqItem ''ar3'' # rest)"
proof -
  let ?a1 = "newClient\<lparr>sent := [ReqItem ''ar3'']\<rparr>"
  let ?a2 = "newClient\<lparr>sent := [ReqItem ''ar3'', ReqArtistAlbums ''ar3'']\<rparr>"
  have chk: "GetArtist_cached newClient ''ar3'' = (newClient, None)"
    by (simp add: GetArtist_cached_def cache_Get_def newClient_def)
  have req: "get sampleEnv newClient (ReqItem ''ar3'') = (?a1, Inr (BArtist artist3))"
    by (simp add: get_def sample_defs)
  have dec: "decodeArtist sampleEnv (BArtist artist3) = Inr artist3"
    by (simp add: sampleEnv_def)
  have lst: "GetArtistAlbums sampleEnv ?a1 ''ar3'' = (?a2, Some [album4], None)"
    by (simp add: GetArtistAlbums_def parseAlbums_def get_def sample_defs)
  have bat: "cache_PutBatch (storeCheck sampleEnv) (cache ?a2) (map ItemAlbum (elems (Some [album4]))) True
      = (Map.empty, Some ''empty id'')"
    by (simp add: elems_def sample_defs)
  have same: "?a2\<lparr>cache := Map.empty\<rparr> = ?a2" by (simp add: newClient_def)
  from GetArtist_batch_failure_not_cached [OF chk req dec lst bat] same
  show ?thesis by (simp add: newClient_def)
qed

section \<open>Albums: the second call is served by the store\<close>

text \<open>
  A remote fetch of an album that gets through to its end has set \<^verbatim>\<open>SongCount\<close> to the number
  of songs listed, so what it stores passes the completeness check.
\<close>

lemma GetAlbum_remote_stored:
  "GetAlbum_remote env a i = (a1, al, None) \<Longrightarrow>
     cache a1 i = Some (ItemAlbum al) \<and> AlbumComplete al"
  by (auto simp: GetAlbum_remote_def Let_def cache_Put_def AlbumComplete_def
           split: prod.splits sum.splits option.splits)

text \<open>
  C2. When \<^verbatim>\<open>GetAlbum(id)\<close> has returned an album without error, leaving the client in state
  \<open>a1\<close>, a second \<^verbatim>\<open>GetAlbum(id)\<close> from \<open>a1\<close> returns the same album (equal in all fields) without
  error and leaves the client as it is: the list of requests sent does not grow, so the call
  issues no network query. It is the completeness check \<^verbatim>\<open>len(Songs) == SongCount\<close> that
  serves it, and the album returned passes it.
\<close>

theorem GetAlbum_twice:
  assumes "GetAlbum env a i = (a1, al, None)"
  shows "GetAlbum env a1 i = (a1, al, None)
       \<and> sent (fst (GetAlbum env a1 i)) = sent a1
       \<and> AlbumComplete al"
proof -
  have "cache a1 i = Some (ItemAlbum al) \<and> AlbumComplete al"
  proof (cases "GetAlbum_cached a i")
    case (Pair a0 hit)
    show ?thesis
    proof (cases hit)
      case None
      with Pair assms have "GetAlbum_remote env a0 i = (a1, al, None)"
        by (simp add: GetAlbum_def)
      then show ?thesis by (rule GetAlbum_remote_stored)
    next
      case (Some al0)
      with Pair assms have "a0 = a1" "al0 = al" by (simp_all add: GetAlbum_def)
      with Pair Some GetAlbum_cached_hit [of a i a0 al0] show ?thesis by simp
    qed
  qed
  then have "GetAlbum_cached a1 i = (a1, Some al)" and "AlbumComplete al"
    by (simp_all add: GetAlbum_cached_complete)
  then show ?thesis by (simp add: GetAlbum_def)
qed

text \<open>
  On the sample catalog: the first \<^verbatim>\<open>GetAlbum("al1")\<close> of a new client sends two requests and
  returns the album with its two songs; the second returns the same and sends nothing.
\<close>

theorem GetAlbum_twice_witness:
  "GetAlbum sampleEnv newClient ''al1'' =
     (fst (GetAlbum sampleEnv newClient ''al1''),
      album1\<lparr>SongCount := 2, Songs := Some [''s1'', ''s2'']\<rparr>, None)
   \<and> GetAlbum sampleEnv (fst (GetAlbum sampleEnv newClient ''al1'')) ''al1'' =
     (fst (GetAlbum sampleEnv newClient ''al1''),
      album1\<lparr>SongCount := 2, Songs := Some [''s1'', ''s2'']\<rparr>, None)
   \<and> sent (fst (GetAlbum sampleEnv newClient ''al1'')) = [ReqItem ''al1'', ReqAlbumSongs ''al1'']"
proof -
  have run: "snd (GetAlbum sampleEnv newClient ''al1'') =
      (album1\<lparr>SongCount := 2, Songs := Some [''s1'', ''s2'']\<rparr>, None)"
    by (simp add: GetAlbum_def GetAlbum_cached_def GetAlbum_remote_def GetAlbumSongs_def
        cache_Get_def cache_Put_def get_def elems_def Let_def sample_defs)
  have log: "sent (fst (GetAlbum sampleEnv newClient ''al1'')) =
      [ReqItem ''al1'', ReqAlbumSongs ''al1'']"
    by (simp add: GetAlbum_def GetAlbum_cached_def GetAlbum_remote_def GetAlbumSongs_def
        cache_Get_def cache_Put_def get_def elems_def Let_def sample_defs)
  have first: "GetAlbum sampleEnv newClient ''al1'' =
     (fst (GetAlbum sampleEnv newClient ''al1''),
      album1\<lparr>SongCount := 2, Songs := Some [''s1'', ''s2'']\<rparr>, None)"
    using run by (metis prod.collapse)
  from GetAlbum_twice [OF first] first log show ?thesis by simp
qed

section \<open>The type discriminator\<close>

text \<open>
  \<^verbatim>\<open>getItemType\<close> never answers with the playlist type, and answers the server's playlist name
  with the unknown-type error whenever that name is not also the name of another type: the
  playlist case of \<^verbatim>\<open>GetItem\<close> cannot be reached.
\<close>

lemma getItemType_never_playlist: "fst (getItemType env dto) \<noteq> TypePlaylist"
  by (auto simp: getItemType_def split: option.splits jvalue.splits)

lemma getItemType_playlist_name:
  assumes "mediaTypePlaylist env \<noteq> mediaTypeArtist env"
      and "mediaTypePlaylist env \<noteq> mediaTypeAlbum env"
      and "mediaTypePlaylist env \<noteq> mediaTypeSong env"
      and "dto ''Type'' = Some (JString (mediaTypePlaylist env))"
  shows "getItemType env dto = (TypeOther [], Some (''unknown type: '' @ mediaTypePlaylist env))"
  using assms by (simp add: getItemType_def)

text \<open>
  C6. The claim: a payload whose type discriminator names one of Artist, Album, Song and
  Playlist is decoded into that variant by \<^verbatim>\<open>GetItem\<close>, and the unknown-type error is for the
  other payloads only. The switch of \<^verbatim>\<open>getItemType\<close> has no case for the playlist type, though
  the switch of \<^verbatim>\<open>GetItem\<close> has one: for the playlist \<open>pl1\<close> of the sample catalog, whose payload
  has the discriminator \<open>Playlist\<close>, a new client sends the request and returns no item and the
  error \<open>invalid item type: unknown type: Playlist\<close>.
\<close>

theorem GetItem_playlist_unknown_type:
  "server sampleEnv (ReqItem ''pl1'') = Inr (BPlaylist playlist1)
   \<and> decodeMap sampleEnv (BPlaylist playlist1)
       = Inr [''Type'' \<mapsto> JString (mediaTypePlaylist sampleEnv), ''Id'' \<mapsto> JString ''pl1'']
   \<and> GetItem sampleEnv newClient ''pl1'' =
       (newClient\<lparr>sent := [ReqItem ''pl1'']\<rparr>, None,
        Some ''invalid item type: unknown type: Playlist'')"
  by (simp add: GetItem_def getItemType_def cache_Get_def get_def sample_defs)

section \<open>From a song to its album and artist\<close>

text \<open>
  C5. \<^verbatim>\<open>GetSongArtistAlbum(song)\<close>, the first \<^verbatim>\<open>GetItem\<close> (for the song's album id) having
  returned \<open>(item1, err1)\<close>:
  \<^item> when it returned an error or an item that is not an album (a playlist, say), the result is
    nil, nil and a non-nil error: the error of \<^verbatim>\<open>GetItem\<close>, or \<open>album not found\<close>;
  \<^item> when it returned an album and the second \<^verbatim>\<open>GetItem\<close> (for the album's artist id) returned
    an error or an item that is not an artist, the result is nil, nil and the error
    \<open>not found\<close>;
  \<^item> whenever the error is non-nil, album and artist are both nil, and whenever it is nil,
    neither is: no album comes without its artist.
\<close>

theorem GetSongArtistAlbum_no_partial_result:
  assumes hop1: "GetItem env a (songAlbum song) = (a1, item1, err1)"
  shows "((err1 \<noteq> None \<or> (\<forall>al. item1 \<noteq> Some (ItemAlbum al))) \<longrightarrow>
            GetSongArtistAlbum env a song =
              (a1, None, None, Some (case err1 of None \<Rightarrow> ''album not found'' | Some e \<Rightarrow> e)))
       \<and> (\<forall>al a2 item2 err2.
            err1 = None \<and> item1 = Some (ItemAlbum al) \<and>
            GetItem env (a1\<lparr>cache := cache_Put (cache a1) (albumId al) (ItemAlbum al) True\<rparr>)
              (albumArtist al) = (a2, item2, err2) \<and>
            (err2 \<noteq> None \<or> (\<forall>ar. item2 \<noteq> Some (ItemArtist ar))) \<longrightarrow>
            GetSongArtistAlbum env a song = (a2, None, None, Some ''not found''))
       \<and> (\<forall>a' album artist e.
            GetSongArtistAlbum env a song = (a', album, artist, Some e) \<longrightarrow>
            album = None \<and> artist = None)
       \<and> (\<forall>a' album artist.
            GetSongArtistAlbum env a song = (a', album, artist, None) \<longrightarrow>
            album \<noteq> None \<and> artist \<noteq> None)"
proof -
  have first: "(err1 \<noteq> None \<or> (\<forall>al. item1 \<noteq> Some (ItemAlbum al))) \<longrightarrow>
            GetSongArtistAlbum env a song =
              (a1, None, None, Some (case err1 of None \<Rightarrow> ''album not found'' | Some e \<Rightarrow> e))"
    using hop1
    by (auto simp: GetSongArtistAlbum_def asAlbum_def Let_def split: option.splits Item.splits)
  have second: "\<forall>al a2 item2 err2.
            err1 = None \<and> item1 = Some (ItemAlbum al) \<and>
            GetItem env (a1\<lparr>cache := cache_Put (cache a1) (albumId al) (ItemAlbum al) True\<rparr>)
              (albumArtist al) = (a2, item2, err2) \<and>
            (err2 \<noteq> None \<or> (\<forall>ar. item2 \<noteq> Some (ItemArtist ar))) \<longrightarrow>
            GetSongArtistAlbum env a song = (a2, None, None, Some ''not found'')"
    using hop1
    by (auto simp: GetSongArtistAlbum_def asAlbum_def asArtist_def Let_def
             split: option.splits Item.splits)
  have third: "\<forall>a' album artist e.
            GetSongArtistAlbum env a song = (a', album, artist, Some e) \<longrightarrow>
            album = None \<and> artist = None"
    by (auto simp: GetSongArtistAlbum_def Let_def split: prod.splits option.splits)
  have fourth: "\<forall>a' album artist.
            GetSongArtistAlbum env a song = (a', album, artist, None) \<longrightarrow>
            album \<noteq> None \<and> artist \<noteq> None"
    by (auto simp: GetSongArtistAlbum_def Let_def split: prod.splits option.splits)
  from first second third fourth show ?thesis by blast
qed

text \<open>
  On the sample catalog: the song's album id is resident as a playlist, and the result is
  \<open>album not found\<close>; the album is resident and its artist is unknown to the server, and the
  result is \<open>not found\<close>.
\<close>

theorem GetSongArtistAlbum_no_partial_result_witness:
  "GetItem sampleEnv browsedClient (songAlbum song3) = (browsedClient, Some (ItemPlaylist playlist1), None)
   \<and> GetSongArtistAlbum sampleEnv browsedClient song3 = (browsedClient, None, None, Some ''album not found'')
   \<and> GetItem sampleEnv orphanClient (songAlbum song4) = (orphanClient, Some (ItemAlbum album5), None)
   \<and> GetItem sampleEnv orphanClient (albumArtist album5)
       = (orphanClient\<lparr>sent := [ReqItem ''ar9'']\<rparr>, None, Some ''get item by id: 404 Not Found'')
   \<and> GetSongArtistAlbum sampleEnv orphanClient song4
       = (orphanClient\<lparr>sent := [ReqItem ''ar9'']\<rparr>, None, None, Some ''not found'')"
proof -
  have h1: "GetItem sampleEnv browsedClient (songAlbum song3)
      = (browsedClient, Some (ItemPlaylist playlist1), None)"
    by (simp add: GetItem_def cache_Get_def browsedClient_def song3_def)
  have w1: "\<forall>al. Some (ItemPlaylist playlist1) \<noteq> Some (ItemAlbum al)" by simp
  have r1: "GetSongArtistAlbum sampleEnv browsedClient song3
      = (browsedClient, None, None, Some ''album not found'')"
    using GetSongArtistAlbum_no_partial_result [OF h1] w1 by simp
  have h2: "GetItem sampleEnv orphanClient (songAlbum song4)
      = (orphanClient, Some (ItemAlbum album5), None)"
    by (simp add: GetItem_def cache_Get_def orphanClient_def song4_def)
  have same: "orphanClient\<lparr>cache := cache_Put (cache orphanClient) (albumId album5) (ItemAlbum album5) True\<rparr>
      = orphanClient"
    by (simp add: orphanClient_def cache_Put_def album5_def)
  have h3: "GetItem sampleEnv orphanClient (albumArtist album5)
      = (orphanClient\<lparr>sent := [ReqItem ''ar9'']\<rparr>, None, Some ''get item by id: 404 Not Found'')"
    by (simp add: GetItem_def cache_Get_def get_def orphanClient_def album5_def sample_defs)
  have r2: "GetSongArtistAlbum sampleEnv orphanClient song4
       = (orphanClient\<lparr>sent := [ReqItem ''ar9'']\<rparr>, None, None, Some ''not found'')"
    using GetSongArtistAlbum_no_partial_result [OF h2] h3 same by simp
  from h1 r1 h2 h3 r2 show ?thesis by blast
qed

section \<open>Listings\<close>

lemma putSongs_other: "i \<notin> songId ` set songs \<Longrightarrow> putSongs c songs i = c i"
  by (induction songs arbitrary: c) (auto simp: cache_Put_def)

text \<open>
  After the loop of \<^verbatim>\<open>GetAlbumSongs\<close>, the slot of an identifier that occurs in the list holds
  the last listed song with that identifier, whatever it held before.
\<close>

lemma putSongs_last:
  "i \<in> songId ` set songs \<Longrightarrow>
     putSongs c songs i = Some (ItemSong (last (filter (\<lambda>x. songId x = i) songs)))"
proof (induction songs arbitrary: c)
  case Nil
  then show ?case by simp
next
  case (Cons x xs)
  show ?case
  proof (cases "i \<in> songId ` set xs")
    case True
    then have "filter (\<lambda>y. songId y = i) xs \<noteq> []"
      by (auto simp: filter_empty_conv)
    with Cons.IH [OF True, of "cache_Put c (songId x) (ItemSong x) True"]
    show ?thesis by simp
  next
    case False
    with Cons.prems have x: "songId x = i" by auto
    from False have "filter (\<lambda>y. songId y = i) xs = []"
      by (auto simp: filter_empty_conv)
    with False x show ?thesis by (simp add: putSongs_other cache_Put_def)
  qed
qed

text \<open>
  C7, as the code has it. When \<^verbatim>\<open>GetAlbumSongs\<close> returns without error, every song of the list
  returned has been put into the store, overwriting: whatever the store held before, a \<^verbatim>\<open>Get\<close>
  by the identifier of a listed song is a hit, and it returns the last listed song with that
  identifier. \<^verbatim>\<open>GetArtistAlbums\<close> and \<^verbatim>\<open>GetPlaylistSongs\<close> leave the store as it is.
\<close>

theorem child_listing_store_effect:
  "(\<forall>a' songs. GetAlbumSongs env a i = (a', songs, None) \<longrightarrow>
       (\<forall>s \<in> set (elems songs).
           cache_Get (cache a') (songId s) =
             (Some (ItemSong (last (filter (\<lambda>x. songId x = songId s) (elems songs)))), True)))
   \<and> cache (fst (GetArtistAlbums env a i)) = cache a
   \<and> cache (fst (GetPlaylistSongs env a i)) = cache a"
proof -
  have songs: "\<forall>a' songs. GetAlbumSongs env a i = (a', songs, None) \<longrightarrow>
       (\<forall>s \<in> set (elems songs).
           cache_Get (cache a') (songId s) =
             (Some (ItemSong (last (filter (\<lambda>x. songId x = songId s) (elems songs)))), True))"
  proof (intro allI impI ballI)
    fix a' songs s
    assume run: "GetAlbumSongs env a i = (a', songs, None)" and s: "s \<in> set (elems songs)"
    from run obtain xs where xs: "songs = Some xs" "cache a' = putSongs (cache a) xs"
      by (auto simp: GetAlbumSongs_def get_def split: sum.splits prod.splits)
    with s have "songId s \<in> songId ` set xs" by (simp add: elems_def)
    from putSongs_last [OF this, of "cache a"] xs
    show "cache_Get (cache a') (songId s) =
             (Some (ItemSong (last (filter (\<lambda>x. songId x = songId s) (elems songs)))), True)"
      by (simp add: elems_def cache_Get_def)
  qed
  have albums: "cache (fst (GetArtistAlbums env a i)) = cache a"
    by (auto simp: GetArtistAlbums_def get_def split: sum.splits prod.splits)
  have playlist: "cache (fst (GetPlaylistSongs env a i)) = cache a"
    by (auto simp: GetPlaylistSongs_def get_def split: sum.splits prod.splits)
  from songs albums playlist show ?thesis by blast
qed

text \<open>
  On the sample catalog: the listing of \<open>al2\<close> has the identifier \<open>s1\<close> twice, first for
  \<open>song1\<close> and last for \<open>song5\<close>; after the listing the store finds \<open>song5\<close> under \<open>s1\<close>.
\<close>

theorem child_listing_store_effect_witness:
  "snd (GetAlbumSongs sampleEnv newClient ''al2'') = (Some [song1, song2, song5], None)
   \<and> songId song1 = ''s1''
   \<and> cache_Get (cache (fst (GetAlbumSongs sampleEnv newClient ''al2''))) ''s1''
        = (Some (ItemSong song5), True)"
proof -
  have run: "GetAlbumSongs sampleEnv newClient ''al2'' =
     (fst (GetAlbumSongs sampleEnv newClient ''al2''), Some [song1, song2, song5], None)"
    by (simp add: GetAlbumSongs_def get_def sample_defs)
  have mem: "song1 \<in> set (elems (Some [song1, song2, song5]))" by (simp add: elems_def)
  have lst: "last (filter (\<lambda>x. songId x = songId song1) (elems (Some [song1, song2, song5]))) = song5"
    by (simp add: elems_def song1_def song2_def song5_def)
  have sid: "songId song1 = ''s1''" by (simp add: song1_def)
  from child_listing_store_effect [of sampleEnv newClient "''al2''"] run
  have "\<forall>s \<in> set (elems (Some [song1, song2, song5])).
           cache_Get (cache (fst (GetAlbumSongs sampleEnv newClient ''al2''))) (songId s) =
             (Some (ItemSong (last (filter (\<lambda>x. songId x = songId s)
                (elems (Some [song1, song2, song5]))))), True)"
    by blast
  with mem have "cache_Get (cache (fst (GetAlbumSongs sampleEnv newClient ''al2''))) (songId song1) =
             (Some (ItemSong (last (filter (\<lambda>x. songId x = songId song1)
                (elems (Some [song1, song2, song5]))))), True)"
    by blast
  with lst sid have "cache_Get (cache (fst (GetAlbumSongs sampleEnv newClient ''al2''))) ''s1''
        = (Some (ItemSong song5), True)"
    by simp
  with run sid show ?thesis by (metis snd_conv)
qed

text \<open>
  C7, as the claim has it, fails: a new client lists the albums of \<open>ar1\<close> and the songs of
  the playlist \<open>pl1\<close> without error, and the store finds neither the first album nor the first
  song afterwards.
\<close>

theorem child_listing_not_stored_counterexample:
  "snd (GetArtistAlbums sampleEnv newClient ''ar1'') = (Some [album1, album2], None)
   \<and> cache_Get (cache (fst (GetArtistAlbums sampleEnv newClient ''ar1''))) (albumId album1) = (None, False)
   \<and> snd (GetPlaylistSongs sampleEnv newClient ''pl1'') = (Some [song1, song2], None)
   \<and> cache_Get (cache (fst (GetPlaylistSongs sampleEnv newClient ''pl1''))) (songId song1) = (None, False)"
  by (simp add: GetArtistAlbums_def GetPlaylistSongs_def parseAlbums_def get_def cache_Get_def sample_defs)

text \<open>\<^verbatim>\<open>GetArtistAlbums\<close> returns an error for a transport error only.\<close>

lemma GetArtistAlbums_error_iff:
  "snd (snd (GetArtistAlbums env a i)) \<noteq> None \<longleftrightarrow> (\<exists>e. server env (ReqArtistAlbums i) = Inl e)"
  by (auto simp: GetArtistAlbums_def get_def split: sum.splits prod.splits)

text \<open>
  C8. The claim: when the album listing fails to decode, \<^verbatim>\<open>GetArtistAlbums\<close> returns a non-nil
  error. The function drops the error of \<^verbatim>\<open>parseAlbums\<close> and returns nil: for artist \<open>ar4\<close> of the
  sample catalog the listing does not decode, and \<^verbatim>\<open>GetArtistAlbums\<close> returns the nil slice and
  the nil error.
\<close>

theorem GetArtistAlbums_drops_decode_error:
  "server sampleEnv (ReqArtistAlbums ''ar4'') = Inr BGarbage
   \<and> parseAlbums sampleEnv BGarbage = (None, 0, Some ''decode json: cannot unmarshal'')
   \<and> GetArtistAlbums sampleEnv newClient ''ar4'' =
       (newClient\<lparr>sent := [ReqArtistAlbums ''ar4'']\<rparr>, None, None)"
  by (simp add: GetArtistAlbums_def parseAlbums_def get_def sample_defs)

text \<open>The index \<^verbatim>\<open>GetSongs\<close> gives to the song at position \<open>i\<close>, whatever the page.\<close>

lemma indexSongs_Index:
  "i < length vs \<Longrightarrow>
     Index (indexSongs pageSize k vs ! i) = go_int (pageSize * pageSize + int (k + i) + 1)"
proof (induction vs arbitrary: k i)
  case Nil
  then show ?case by simp
next
  case (Cons v vs)
  show ?case
  proof (cases i)
    case 0
    then show ?thesis by simp
  next
    case (Suc j)
    with Cons.prems have "j < length vs" by simp
    from Cons.IH [OF this, of "Suc k"] Suc show ?thesis by simp
  qed
qed

text \<open>
  C9. The claim: the song at position \<open>i\<close> of \<^verbatim>\<open>GetSongs(page, pageSize)\<close> has the index
  \<open>page * pageSize + i + 1\<close>. The source computes \<open>pageSize * pageSize + i + 1\<close>: on page 0 with
  page size 2 the two songs of the sample catalog get the indices 5 and 6, where the claim
  gives 1 and 2.
\<close>

theorem GetSongs_index_ignores_page:
  "snd (GetSongs sampleEnv newClient 0 2) =
     (Some [song1\<lparr>Index := 5\<rparr>, song2\<lparr>Index := 6\<rparr>], 2, None)"
  by (simp add: GetSongs_def get_def go_int_def sample_defs)

text \<open>
  C10. For the empty id list, \<^verbatim>\<open>GetSongsById\<close> returns the empty (non-nil) slice and the error
  \<open>ids cannot be empty\<close>, and the client is unchanged: no request has been sent.
\<close>

theorem GetSongsById_empty_ids:
  "GetSongsById env a [] = (a, Some [], Some ''ids cannot be empty'')"
  by (simp add: GetSongsById_def)

end
